theory Spec2Isabelle
  imports Complex_Main "HOL-Library.Multiset" "HOL-Library.List_Lexorder" "HOL-Library.Char_ord"
begin

section \<open>The Docker explorer tree provider (src/explorer/dockerExplorer.ts)\<close>

text \<open>
  The provider is a TypeScript class of asynchronous methods. An awaited promise either
  never settles, rejects with an error or resolves with a value: the result of an
  asynchronous method is a value of type \<open>(error + 'a) option\<close>, where \<open>None\<close> is a promise
  that never settles, \<open>Some (Inl e)\<close> a rejection and \<open>Some (Inr v)\<close> a resolution.
  A value that may be \<open>undefined\<close> or \<open>null\<close> is an \<open>option\<close>.
\<close>

subsection \<open>Errors and JavaScript values\<close>

text \<open>
  The errors the provider meets: the two it raises itself, a failure a collaborator reports,
  and the two rejections of the HTTP client, which wraps a transport error and reports a
  status code outside 2xx.
\<close>

datatype error =
    TypeError
  | SyntaxError
  | Failure string
  | RequestError error
  | StatusCodeError nat

text \<open>Truthiness of a string that may be undefined: defined and not empty.\<close>

definition truthy :: "string option \<Rightarrow> bool" where
  "truthy v = (case v of None \<Rightarrow> False | Some s \<Rightarrow> s \<noteq> [])"

subsection \<open>Pagination: \<open>listAll\<close>\<close>

text \<open>
  \<open>PartialList<T>\<close> is an array with an optional \<open>nextLink\<close> property.
\<close>

record 'a PartialList =
  items :: "'a list"
  nextLink :: "string option"

text \<open>
  \<^verbatim>\<open>for (let list = await first; list.length || list.nextLink;
            list = list.nextLink ? await client.listNext(list.nextLink) : [])
         { all.push(...list); }
     return all;\<close>
  The loop follows links for as long as the client hands them out, so it need not end.
\<close>

partial_function (option) listAll_loop ::
  "(string \<Rightarrow> error + 'a PartialList) \<Rightarrow> 'a PartialList \<Rightarrow> 'a list \<Rightarrow> (error + 'a list) option"
where
  "listAll_loop listNext list all =
     (if length (items list) \<noteq> 0 \<or> truthy (nextLink list)
      then (if truthy (nextLink list)
            then (case listNext (the (nextLink list)) of
                    Inl e \<Rightarrow> Some (Inl e)
                  | Inr list' \<Rightarrow> listAll_loop listNext list' (all @ items list))
            else listAll_loop listNext \<lparr>items = [], nextLink = None\<rparr> (all @ items list))
      else Some (Inr all))"

definition listAll ::
  "(string \<Rightarrow> error + 'a PartialList) \<Rightarrow> error + 'a PartialList \<Rightarrow> (error + 'a list) option"
where
  "listAll listNext first =
     (case first of
        Inl e \<Rightarrow> Some (Inl e)
      | Inr list \<Rightarrow> listAll_loop listNext list [])"

text \<open>
  The specification's reading of a paginated listing: a finite sequence of pages in which
  every page but the last carries a continuation link that the client resolves to the next
  page, and the last page carries none.
\<close>

fun linked_pages :: "(string \<Rightarrow> error + 'a PartialList) \<Rightarrow> 'a PartialList list \<Rightarrow> bool" where
  "linked_pages listNext [] = False"
| "linked_pages listNext [p] = (\<not> truthy (nextLink p))"
| "linked_pages listNext (p # q # ps) =
     (truthy (nextLink p) \<and> listNext (the (nextLink p)) = Inr q \<and> linked_pages listNext (q # ps))"


subsection \<open>Descriptors, sessions and tree nodes\<close>

text \<open>
  The fields the provider reads from the daemon's descriptors. \<open>RepoTags\<close> is tested for
  truthiness by the code, so it may be absent (\<open>null\<close> or \<open>undefined\<close>); an empty array is
  present (and truthy).
\<close>

record ImageDesc =
  Id' :: string
  RepoTags :: "string list option"

record ContainerDesc =
  Image :: string
  Names :: "string list"
  State :: string
  Status :: string

record AzureSession =
  credentials :: string
  environment :: string

record Subscription =
  displayName :: "string option"
  subscriptionId :: "string option"
  tenantId :: "string option"

record SubscriptionItem =
  label :: string
  description :: string
  session :: AzureSession
  subscription :: Subscription

record HubUser =
  username :: "string option"

record HubTag =
  name :: "string option"

record Repository =
  namespace :: "string option"
  name :: "string option"

record ContainerRegistry =
  loginServer :: string

record TokenResult =
  accessToken :: "string option"
  refreshToken :: "string option"

text \<open>
  \<open>repository: any = {}\<close> holds a Docker Hub repository record or, on Azure nodes, the
  registry's login server (a string).
\<close>

datatype repository_value = RepoRecord Repository | RepoString string

datatype TreeItemCollapsibleState = None_state | Collapsed | Expanded

text \<open>
  An icon is a pair of files of one name under \<open>images/light\<close> and \<open>images/dark\<close>; the name
  identifies it.
\<close>

datatype icon = mono_moby_small | moby_small

text \<open>The \<open>iconPath\<close> argument of the constructor: omitted, \<open>null\<close>, or an icon.\<close>

datatype iconPath_arg = Omitted | Null | Icon icon

text \<open>
  The provider assigns to the fields of a node only between its construction and the
  \<open>push\<close> that hands it out, and never to a node it was given or has stored: a node is
  modelled as the value of its fields.
\<close>

record DockerNode =
  label :: string
  collapsibleState :: TreeItemCollapsibleState
  contextValue :: string
  command :: "string option"
  iconPath :: "icon option"
  containerDesc :: "ContainerDesc option"
  imageDesc :: "ImageDesc option"
  repository :: repository_value
  subscription :: "SubscriptionItem option"
  refreshTokenARC :: "string option"
  accessTokenARC :: "string option"

text \<open>
  \<^verbatim>\<open>constructor(label, collapsibleState, contextValue, command?, iconPath = {mono_moby_small})\<close>:
  the default applies to an omitted argument, not to \<open>null\<close>.
\<close>

definition DockerNode_new ::
  "string \<Rightarrow> TreeItemCollapsibleState \<Rightarrow> string \<Rightarrow> string option \<Rightarrow> iconPath_arg \<Rightarrow> DockerNode"
where
  "DockerNode_new l cs cv cmd ip =
     \<lparr>label = l, collapsibleState = cs, contextValue = cv, command = cmd,
      iconPath = (case ip of Omitted \<Rightarrow> Some mono_moby_small | Null \<Rightarrow> None | Icon i \<Rightarrow> Some i),
      containerDesc = None, imageDesc = None,
      repository = RepoRecord \<lparr>namespace = None, name = None\<rparr>,
      subscription = None, refreshTokenARC = None, accessTokenARC = None\<rparr>"

subsection \<open>The provider and the runtime it runs in\<close>

datatype keytar_module = Keytar

text \<open>
  The event emitter is the sequence of nodes it has fired, oldest first; \<open>None\<close> is a
  change event for \<open>undefined\<close>, which asks the host to redraw the whole tree.
\<close>

record 'n DockerExplorerProvider =
  onDidChangeTreeData :: "'n option list"
  imagesNode :: "'n option"
  containersNode :: "'n option"
  registriesNode :: "'n option"
  debounceTimer :: "nat option"
  keytar :: "keytar_module option"

text \<open>
  The constructor assigns \<open>_keytar\<close> when the module loads and nothing else: the node
  references and the timer start out undefined.
\<close>

definition DockerExplorerProvider_new :: "bool \<Rightarrow> 'n DockerExplorerProvider" where
  "DockerExplorerProvider_new keytar_found =
     \<lparr>onDidChangeTreeData = [], imagesNode = None, containersNode = None,
      registriesNode = None, debounceTimer = None,
      keytar = (if keytar_found then Some Keytar else None)\<rparr>"

definition fire :: "DockerNode option \<Rightarrow> DockerNode DockerExplorerProvider \<Rightarrow> DockerNode DockerExplorerProvider" where
  "fire n p = p\<lparr>onDidChangeTreeData := onDidChangeTreeData p @ [n]\<rparr>"

definition refreshImages :: "DockerNode DockerExplorerProvider \<Rightarrow> DockerNode DockerExplorerProvider" where
  "refreshImages p = fire (imagesNode p) p"

definition refreshContainers :: "DockerNode DockerExplorerProvider \<Rightarrow> DockerNode DockerExplorerProvider" where
  "refreshContainers p = fire (containersNode p) p"

definition refreshRegistries :: "DockerNode DockerExplorerProvider \<Rightarrow> DockerNode DockerExplorerProvider" where
  "refreshRegistries p = fire (registriesNode p) p"

definition refresh :: "DockerNode DockerExplorerProvider \<Rightarrow> DockerNode DockerExplorerProvider" where
  "refresh p = refreshRegistries (refreshContainers (refreshImages p))"

text \<open>
  A JavaScript number as far as \<open>setAutoRefresh\<close> looks at it: it is compared with 0, and
  every comparison with \<open>NaN\<close> is false.
\<close>

datatype js_number = Num real | NaN

definition greater_zero :: "js_number \<Rightarrow> bool" where
  "greater_zero x = (case x of Num r \<Rightarrow> 0 < r | NaN \<Rightarrow> False)"

text \<open>
  The timers of the event loop: the pending timeouts, each a handle with its delay, and the
  next handle to hand out. \<open>setTimeout\<close> registers a new timeout and returns its handle;
  \<open>clearTimeout\<close> drops the timeout of a handle and does nothing for \<open>undefined\<close>. Every
  timeout the provider registers carries the same callback, so the table does not store it.
\<close>

record runtime =
  timers :: "(nat \<times> js_number) list"
  next_timer :: nat

definition setTimeout :: "js_number \<Rightarrow> runtime \<Rightarrow> nat \<times> runtime" where
  "setTimeout delay rt =
     (next_timer rt,
      rt\<lparr>timers := timers rt @ [(next_timer rt, delay)], next_timer := Suc (next_timer rt)\<rparr>)"

definition clearTimeout :: "nat option \<Rightarrow> runtime \<Rightarrow> runtime" where
  "clearTimeout h rt =
     (case h of
        None \<Rightarrow> rt
      | Some t \<Rightarrow> rt\<lparr>timers := filter (\<lambda>(t', d). t' \<noteq> t) (timers rt)\<rparr>)"

text \<open>
  \<^verbatim>\<open>const interval = configOptions.get('explorerRefreshInterval', 1000);
     if (interval > 0) {
         clearTimeout(this._debounceTimer);
         this._debounceTimer = setTimeout(() => { this.refreshImages(); this.refreshContainers(); }, interval);
     }\<close>
  The argument is the configured value, \<open>None\<close> when the option is not set.
\<close>

definition config_get :: "js_number option \<Rightarrow> js_number \<Rightarrow> js_number" where
  "config_get configured defaultValue = (case configured of None \<Rightarrow> defaultValue | Some v \<Rightarrow> v)"

definition setAutoRefresh ::
  "js_number option \<Rightarrow> DockerNode DockerExplorerProvider \<times> runtime \<Rightarrow> DockerNode DockerExplorerProvider \<times> runtime"
where
  "setAutoRefresh explorerRefreshInterval s =
     (let (p, rt) = s;
          interval = config_get explorerRefreshInterval (Num 1000)
      in if greater_zero interval
         then (let rt1 = clearTimeout (debounceTimer p) rt;
                   (h, rt2) = setTimeout interval rt1
               in (p\<lparr>debounceTimer := Some h\<rparr>, rt2))
         else (p, rt))"

text \<open>The callback of the timeout.\<close>

definition debounce_callback :: "DockerNode DockerExplorerProvider \<Rightarrow> DockerNode DockerExplorerProvider" where
  "debounce_callback p = refreshContainers (refreshImages p)"

text \<open>
  The event loop fires a pending timeout once: it leaves the table and its callback runs.
  A handle that is not pending fires nothing.
\<close>

definition timer_fires ::
  "nat \<Rightarrow> DockerNode DockerExplorerProvider \<times> runtime \<Rightarrow> DockerNode DockerExplorerProvider \<times> runtime"
where
  "timer_fires h s =
     (let (p, rt) = s
      in if h \<in> fst ` set (timers rt)
         then (debounce_callback p, rt\<lparr>timers := filter (\<lambda>(t', d). t' \<noteq> h) (timers rt)\<rparr>)
         else (p, rt))"


subsection \<open>Collaborators\<close>

text \<open>
  The daemon client, the Azure account and management clients, the Docker Hub client, the
  credential store, the login dialogue and the HTTP client are collaborators outside this
  file. What each of their calls hands back is a parameter of the model: for the daemon
  and the Docker Hub and Azure clients how the promise of the call settles, for the
  credential object whether it calls back at once and with which error and result, for
  HTTP what the exchange with the server ends in.
\<close>

datatype http_method = GET | POST

datatype form_value = Text "string option" | Any_value repository_value

datatype request_options = form "(string \<times> form_value) list" | auth_bearer "string option"

record http_request =
  verb :: http_method
  url :: string
  options :: request_options

text \<open>
  An HTTP exchange ends in a transport error or in a response with a status code and a
  body. The callback of a request is handed \<open>err\<close> and \<open>body\<close> (the callbacks do not read
  \<open>httpResponse\<close>): an error and no body, or no error and the body.
\<close>

datatype http_exchange = Transport_error error | Response nat string

record http_outcome =
  err :: "error option"
  body :: "string option"

text \<open>
  The bodies of the registry protocol are JSON objects; the code reads four properties of
  them. \<open>JSON_parse\<close> gives these properties of the parsed body, each undefined when the
  object lacks it, or the error \<open>JSON.parse\<close> throws.
\<close>

record json_body =
  refresh_token :: "string option"
  access_token :: "string option"
  repositories :: "string list option"
  tags :: "string list option"

record backend =
  docker_getImageDescriptors :: "error + ImageDesc list option"
  docker_getContainerDescriptors :: "error + ContainerDesc list option"
  azureAccount_waitForLogin :: "error + bool"
  azureAccount_sessions :: "AzureSession list"
  subscriptions_list :: "string \<Rightarrow> error + Subscription PartialList"
  subscriptions_listNext :: "string \<Rightarrow> string \<Rightarrow> error + Subscription PartialList"
  localeCompare :: "string \<Rightarrow> string \<Rightarrow> int"
  keytar_getPassword :: "error + string option"
  dockerHubLogin :: "error + string option"
  dockerHubAPI_loggedInUser :: "error + HubUser option"
  dockerHubAPI_repositories :: "string option \<Rightarrow> error + Repository list"
  dockerHubAPI_repository :: "string option \<Rightarrow> string option \<Rightarrow> error + Repository"
  dockerHubAPI_tags :: "string option \<Rightarrow> string option \<Rightarrow> error + HubTag list"
  registries_list :: "string \<Rightarrow> string option \<Rightarrow> error + ContainerRegistry list"
  context_acquireToken :: "AzureSession \<Rightarrow> bool \<times> error option \<times> TokenResult option"
  http_server :: "http_request \<Rightarrow> http_exchange"
  JSON_parse :: "string \<Rightarrow> error + json_body"

text \<open>\<open>await p\<close> followed by the rest of the function.\<close>

definition await ::
  "(error + 'a) option \<Rightarrow> ('a \<Rightarrow> (error + 'b) option) \<Rightarrow> (error + 'b) option"
where
  "await p k = (case p of None \<Rightarrow> None | Some (Inl e) \<Rightarrow> Some (Inl e) | Some (Inr v) \<Rightarrow> k v)"

text \<open>A value in a template literal or a string concatenation.\<close>

definition template :: "string option \<Rightarrow> string" where
  "template v = (case v of None \<Rightarrow> ''undefined'' | Some s \<Rightarrow> s)"

definition repository_string :: "repository_value \<Rightarrow> string" where
  "repository_string r = (case r of RepoString s \<Rightarrow> s | RepoRecord _ \<Rightarrow> ''[object Object]'')"

definition repository_namespace :: "repository_value \<Rightarrow> string option" where
  "repository_namespace r = (case r of RepoString s \<Rightarrow> None | RepoRecord x \<Rightarrow> namespace x)"

definition repository_name :: "repository_value \<Rightarrow> string option" where
  "repository_name r = (case r of RepoString s \<Rightarrow> None | RepoRecord x \<Rightarrow> Repository.name x)"

subsection \<open>\<open>getSubscriptions\<close>\<close>

text \<open>
  \<open>Array.prototype.sort\<close> with a comparator: a stable sort, an element going before
  another when the comparator is not positive on them in their sorted order.
\<close>

fun sort_insert :: "('a \<Rightarrow> 'a \<Rightarrow> int) \<Rightarrow> 'a \<Rightarrow> 'a list \<Rightarrow> 'a list" where
  "sort_insert cmp x [] = [x]"
| "sort_insert cmp x (y # ys) = (if cmp x y \<le> 0 then x # y # ys else y # sort_insert cmp x ys)"

definition Array_sort :: "('a \<Rightarrow> 'a \<Rightarrow> int) \<Rightarrow> 'a list \<Rightarrow> 'a list" where
  "Array_sort cmp xs = foldr (sort_insert cmp) xs []"

text \<open>\<open>x || ''\<close> for a string that may be undefined.\<close>

definition or_empty :: "string option \<Rightarrow> string" where
  "or_empty v = (case v of None \<Rightarrow> [] | Some s \<Rightarrow> s)"

definition subscription_item :: "AzureSession \<Rightarrow> Subscription \<Rightarrow> SubscriptionItem" where
  "subscription_item s sub =
     \<lparr>SubscriptionItem.label = or_empty (displayName sub),
      description = or_empty (subscriptionId sub),
      session = s,
      SubscriptionItem.subscription = sub\<rparr>"

fun sessions_loop ::
  "backend \<Rightarrow> AzureSession list \<Rightarrow> SubscriptionItem list \<Rightarrow> (error + SubscriptionItem list) option"
where
  "sessions_loop B [] subscriptionItems = Some (Inr subscriptionItems)"
| "sessions_loop B (s # ss) subscriptionItems =
     await (listAll (subscriptions_listNext B (credentials s)) (subscriptions_list B (credentials s)))
       (\<lambda>subscriptions.
          sessions_loop B ss (subscriptionItems @ map (subscription_item s) subscriptions))"

definition getSubscriptions :: "backend \<Rightarrow> (error + SubscriptionItem list) option" where
  "getSubscriptions B =
     await (sessions_loop B (azureAccount_sessions B) [])
       (\<lambda>subscriptionItems.
          Some (Inr (Array_sort
            (\<lambda>a b. localeCompare B (SubscriptionItem.label a) (SubscriptionItem.label b))
            subscriptionItems)))"


subsection \<open>\<open>getDockerNodes\<close>: images and containers\<close>

text \<open>
  The inner loop over \<open>images[i].RepoTags\<close> and the outer loop over \<open>images\<close>; \<open>nodes\<close> is
  the array the function pushes to. The nodes are built with three arguments, so
  \<open>command\<close> is undefined and \<open>iconPath\<close> takes its default.
\<close>

fun repoTags_loop :: "ImageDesc \<Rightarrow> string list \<Rightarrow> DockerNode list \<Rightarrow> DockerNode list" where
  "repoTags_loop img [] nodes = nodes"
| "repoTags_loop img (tag # rest) nodes =
     repoTags_loop img rest
       (nodes @ [(DockerNode_new tag None_state ''image'' None Omitted)\<lparr>imageDesc := Some img\<rparr>])"

fun images_loop :: "ImageDesc list \<Rightarrow> DockerNode list \<Rightarrow> DockerNode list" where
  "images_loop [] nodes = nodes"
| "images_loop (img # rest) nodes =
     images_loop rest
       (case RepoTags img of
          None \<Rightarrow>
            nodes @ [(DockerNode_new ''<none>:<none>'' None_state ''image'' None Omitted)
                       \<lparr>imageDesc := Some img\<rparr>]
        | Some repoTags \<Rightarrow> repoTags_loop img repoTags nodes)"

definition expand_images :: "backend \<Rightarrow> (error + DockerNode list option) option" where
  "expand_images B =
     await (Some (docker_getImageDescriptors B))
       (\<lambda>images.
          case images of
            None \<Rightarrow> Some (Inr (Some []))
          | Some imgs \<Rightarrow>
              if length imgs = 0 then Some (Inr (Some []))
              else Some (Inr (Some (images_loop imgs []))))"

text \<open>
  One iteration of the loop over \<open>containers\<close>: the state decides \<open>contextValue\<close> and
  \<open>iconPath\<close>, then \<open>containers[i].Names[0].substring(1)\<close> is read. \<open>Names[0]\<close> of an empty
  array is undefined and calling \<open>substring\<close> on it throws a TypeError; \<open>substring(1)\<close> of
  a string drops its first character and is the empty string for the empty string.
\<close>

definition container_node :: "ContainerDesc \<Rightarrow> error + DockerNode" where
  "container_node c =
     (let (contextValue', iconPath') =
            (if State c \<in> set [''exited'', ''dead'']
             then (''stoppedContainer'', mono_moby_small)
             else (''runningContainer'', moby_small))
      in case Names c of
           [] \<Rightarrow> Inl TypeError
         | name0 # _ \<Rightarrow>
             (let containerName = drop 1 name0
              in Inr ((DockerNode_new
                         (Image c @ '' ('' @ containerName @ '') ['' @ Status c @ '']'')
                         None_state contextValue' None (Icon iconPath'))
                       \<lparr>containerDesc := Some c\<rparr>)))"

fun containers_loop :: "ContainerDesc list \<Rightarrow> DockerNode list \<Rightarrow> error + DockerNode list" where
  "containers_loop [] nodes = Inr nodes"
| "containers_loop (c # rest) nodes =
     (case container_node c of
        Inl e \<Rightarrow> Inl e
      | Inr node \<Rightarrow> containers_loop rest (nodes @ [node]))"

definition expand_containers :: "backend \<Rightarrow> (error + DockerNode list option) option" where
  "expand_containers B =
     await (Some (docker_getContainerDescriptors B))
       (\<lambda>containers.
          case containers of
            None \<Rightarrow> Some (Inr (Some []))
          | Some cs \<Rightarrow>
              if length cs = 0 then Some (Inr (Some []))
              else (case containers_loop cs [] of
                      Inl e \<Rightarrow> Some (Inl e)
                    | Inr nodes \<Rightarrow> Some (Inr (Some nodes))))"

subsection \<open>\<open>getDockerNodes\<close>: registries, Docker Hub and Azure subscriptions\<close>

fun subs_loop :: "SubscriptionItem list \<Rightarrow> DockerNode list \<Rightarrow> DockerNode list" where
  "subs_loop [] nodes = nodes"
| "subs_loop (sub # rest) nodes =
     subs_loop rest
       (nodes @ [(DockerNode_new (SubscriptionItem.label sub) Collapsed ''azureSubscription'' None Null)
                   \<lparr>subscription := Some sub\<rparr>])"

definition expand_registries :: "backend \<Rightarrow> (error + DockerNode list option) option" where
  "expand_registries B =
     (let nodes = [DockerNode_new ''Docker Hub'' Collapsed ''dockerHubRegistry'' None Null]
      in await (Some (azureAccount_waitForLogin B))
           (\<lambda>loggedIntoAzure.
              if loggedIntoAzure
              then await (getSubscriptions B) (\<lambda>subs. Some (Inr (Some (subs_loop subs nodes))))
              else Some (Inr (Some nodes))))"

text \<open>
  The loop over \<open>myRepos\<close> awaits \<open>dockerHubAPI.repository\<close> in every iteration.
\<close>

fun myRepos_loop ::
  "backend \<Rightarrow> Repository list \<Rightarrow> DockerNode list \<Rightarrow> (error + DockerNode list option) option"
where
  "myRepos_loop B [] nodes = Some (Inr (Some nodes))"
| "myRepos_loop B (r # rest) nodes =
     await (Some (dockerHubAPI_repository B (namespace r) (Repository.name r)))
       (\<lambda>myRepo.
          myRepos_loop B rest
            (nodes @ [(DockerNode_new
                         (template (namespace myRepo) @ ''/'' @ template (Repository.name myRepo))
                         Collapsed ''dockerHubRegistryImage'' None Null)
                       \<lparr>repository := RepoRecord myRepo\<rparr>]))"

text \<open>
  From \<open>const user = await dockerHubAPI.loggedInUser()\<close> on; \<open>user.username\<close> of an
  undefined user throws a TypeError. The login token handed to the Docker Hub client and
  the password written to the credential store change those collaborators, not the
  provider.
\<close>

definition list_myRepos :: "backend \<Rightarrow> (error + DockerNode list option) option" where
  "list_myRepos B =
     await (Some (dockerHubAPI_loggedInUser B))
       (\<lambda>user.
          case user of
            None \<Rightarrow> Some (Inl TypeError)
          | Some u \<Rightarrow>
              await (Some (dockerHubAPI_repositories B (username u)))
                (\<lambda>myRepos. myRepos_loop B myRepos []))"

definition expand_dockerHubRegistry ::
  "backend \<Rightarrow> DockerNode DockerExplorerProvider \<Rightarrow> (error + DockerNode list option) option"
where
  "expand_dockerHubRegistry B p =
     await (if keytar p \<noteq> None then Some (keytar_getPassword B) else Some (Inr None))
       (\<lambda>token.
          if \<not> truthy token
          then await (Some (dockerHubLogin B))
                 (\<lambda>token. if truthy token then list_myRepos B else Some (Inr (Some [])))
          else list_myRepos B)"

fun myTags_loop :: "DockerNode \<Rightarrow> HubTag list \<Rightarrow> DockerNode list \<Rightarrow> DockerNode list" where
  "myTags_loop element [] nodes = nodes"
| "myTags_loop element (t # rest) nodes =
     myTags_loop element rest
       (nodes @ [DockerNode_new
                   (template (repository_name (repository element)) @ '':'' @ template (HubTag.name t))
                   None_state ''dockerHubRegistryImageTag'' None Null])"

definition expand_dockerHubRegistryImage ::
  "backend \<Rightarrow> DockerNode \<Rightarrow> (error + DockerNode list option) option"
where
  "expand_dockerHubRegistryImage B element =
     await (Some (dockerHubAPI_tags B (repository_namespace (repository element))
                                       (repository_name (repository element))))
       (\<lambda>myTags. Some (Inr (Some (myTags_loop element myTags []))))"

fun registries_loop :: "DockerNode \<Rightarrow> ContainerRegistry list \<Rightarrow> DockerNode list \<Rightarrow> DockerNode list" where
  "registries_loop element [] nodes = nodes"
| "registries_loop element (r # rest) nodes =
     registries_loop element rest
       (nodes @ [(DockerNode_new (loginServer r) Collapsed ''azureRegistry'' None Null)
                   \<lparr>subscription := subscription element\<rparr>])"

text \<open>
  \<open>element.subscription.session\<close> of a node without a subscription throws a TypeError.
\<close>

definition expand_azureSubscription ::
  "backend \<Rightarrow> DockerNode \<Rightarrow> (error + DockerNode list option) option"
where
  "expand_azureSubscription B element =
     (case subscription element of
        None \<Rightarrow> Some (Inl TypeError)
      | Some sub \<Rightarrow>
          await (Some (registries_list B (credentials (session sub))
                                        (subscriptionId (SubscriptionItem.subscription sub))))
            (\<lambda>registries. Some (Inr (Some (registries_loop element registries [])))))"


subsection \<open>\<open>getDockerNodes\<close>: Azure registries and repositories\<close>

text \<open>
  \<open>acquireToken\<close> wraps the callback of the credential object in a promise: an error
  rejects it, a result resolves it. A callback with neither throws a TypeError when
  \<open>result.accessToken\<close> is read: inside the executor of the promise when the credential
  object calls back at once, which rejects the promise; inside the credential object at a
  later turn otherwise, and then the promise never settles.
\<close>

definition acquireToken :: "backend \<Rightarrow> AzureSession \<Rightarrow> (error + TokenResult) option" where
  "acquireToken B s =
     (case context_acquireToken B s of
        (at_once, Some e, _) \<Rightarrow> Some (Inl e)
      | (at_once, None, Some result) \<Rightarrow>
          Some (Inr \<lparr>accessToken = accessToken result, refreshToken = refreshToken result\<rparr>)
      | (at_once, None, None) \<Rightarrow> (if at_once then Some (Inl TypeError) else None))"

text \<open>
  The requests of the token exchange. The registry branch takes the host from
  \<open>element.label\<close>, the repository branch from \<open>element.repository\<close>.
\<close>

definition exchange_request ::
  "string \<Rightarrow> form_value \<Rightarrow> string option \<Rightarrow> TokenResult \<Rightarrow> http_request"
where
  "exchange_request host service tenant tok =
     \<lparr>verb = POST, url = ''https://'' @ host @ ''/oauth2/exchange'',
      options = form
        [(''grant_type'', Text (Some ''access_token_refresh_token'')),
         (''service'', service),
         (''tenant'', Text tenant),
         (''refresh_token'', Text (refreshToken tok)),
         (''access_token'', Text (accessToken tok))]\<rparr>"

definition token_request ::
  "string \<Rightarrow> form_value \<Rightarrow> string \<Rightarrow> string option \<Rightarrow> http_request"
where
  "token_request host service scope refreshTokenARC' =
     \<lparr>verb = POST, url = ''https://'' @ host @ ''/oauth2/token'',
      options = form
        [(''grant_type'', Text (Some ''refresh_token'')),
         (''service'', service),
         (''scope'', Text (Some scope)),
         (''refresh_token'', Text refreshTokenARC')]\<rparr>"

definition catalog_request :: "string \<Rightarrow> string option \<Rightarrow> http_request" where
  "catalog_request host accessTokenARC' =
     \<lparr>verb = GET, url = ''https://'' @ host @ ''/v2/_catalog'',
      options = auth_bearer accessTokenARC'\<rparr>"

definition tags_request :: "string \<Rightarrow> string \<Rightarrow> string option \<Rightarrow> http_request" where
  "tags_request host repo accessTokenARC' =
     \<lparr>verb = GET, url = ''https://'' @ host @ ''/v2/'' @ repo @ ''/tags/list'',
      options = auth_bearer accessTokenARC'\<rparr>"

text \<open>
  The HTTP client is the \<open>request-promise\<close> library, used as
  \<^verbatim>\<open>await request.post(url, options, callback)\<close>.

  A request whose \<open>auth\<close> option has neither a user nor a bearer token fails while the
  client builds it, with the error "no auth mechanism defined", and nothing of what the
  server would answer is looked at.
\<close>

definition build_error :: "http_request \<Rightarrow> error option" where
  "build_error req =
     (case options req of
        auth_bearer None \<Rightarrow> Some (Failure ''no auth mechanism defined'')
      | auth_bearer (Some b) \<Rightarrow> None
      | form f \<Rightarrow> None)"

text \<open>
  The callback works on the variables of the enclosing function it assigns to, \<open>s\<close>, and
  what it returns is dropped. In the callbacks below every statement that can throw comes
  before the first assignment, so a callback that throws leaves \<open>s\<close> as it found it.
\<close>

definition after_callback :: "(http_outcome \<Rightarrow> 's \<Rightarrow> error + 's) \<Rightarrow> http_outcome \<Rightarrow> 's \<Rightarrow> 's" where
  "after_callback callback out s = (case callback out s of Inl thrown \<Rightarrow> s | Inr s1 \<Rightarrow> s1)"

text \<open>
  When a request fails while it is built, the client runs the callback on the error inside
  the call, rejects the request and throws on what the callback threw: the exception leaves
  \<open>request.get\<close> and the enclosing function rejects with it. When the callback returns,
  the enclosing function rejects at the \<open>await\<close>, with the error of the request.

  Any other request is sent. When the exchange has ended the client runs the callback,
  from the event loop, and settles the request: it rejects on a transport error and on a
  status code outside 2xx, and resolves otherwise. An exception the callback throws there
  is thrown on into the event loop and surfaces in the host as an uncaught exception; the
  promise of the enclosing function does not see it, and the function goes on as the
  request settled. Where the request rejects the enclosing function ends, and what the
  callback did to \<open>s\<close> is of no account.
\<close>

definition request_await ::
  "backend \<Rightarrow> http_request \<Rightarrow> (http_outcome \<Rightarrow> 's \<Rightarrow> error + 's) \<Rightarrow> 's \<Rightarrow>
   ('s \<Rightarrow> (error + 'b) option) \<Rightarrow> (error + 'b) option"
where
  "request_await B req callback s k =
     (case build_error req of
        Some e \<Rightarrow>
          (case callback \<lparr>err = Some e, body = None\<rparr> s of
             Inl thrown \<Rightarrow> Some (Inl thrown)
           | Inr s1 \<Rightarrow> Some (Inl (RequestError e)))
      | None \<Rightarrow>
          (case http_server B req of
             Transport_error e \<Rightarrow> Some (Inl (RequestError e))
           | Response status b \<Rightarrow>
               if 200 \<le> status \<and> status < 300
               then k (after_callback callback \<lparr>err = None, body = Some b\<rparr> s)
               else Some (Inl (StatusCodeError status))))"

text \<open>
  \<^verbatim>\<open>(err, httpResponse, body) => {
         if (body.length > 0) { refreshTokenARC = JSON.parse(body).refresh_token; }
         else { return []; } }\<close>
  \<open>body.length\<close> of an undefined body throws a TypeError.
\<close>

definition exchange_callback ::
  "backend \<Rightarrow> http_outcome \<Rightarrow> string option \<Rightarrow> error + string option"
where
  "exchange_callback B out refreshTokenARC' =
     (case body out of
        None \<Rightarrow> Inl TypeError
      | Some b \<Rightarrow>
          if length b > 0
          then (case JSON_parse B b of Inl e \<Rightarrow> Inl e | Inr j \<Rightarrow> Inr (refresh_token j))
          else Inr refreshTokenARC')"

definition token_callback ::
  "backend \<Rightarrow> http_outcome \<Rightarrow> string option \<Rightarrow> error + string option"
where
  "token_callback B out accessTokenARC' =
     (case body out of
        None \<Rightarrow> Inl TypeError
      | Some b \<Rightarrow>
          if length b > 0
          then (case JSON_parse B b of Inl e \<Rightarrow> Inl e | Inr j \<Rightarrow> Inr (access_token j))
          else Inr accessTokenARC')"

fun repositories_loop ::
  "DockerNode \<Rightarrow> string option \<Rightarrow> string option \<Rightarrow> string list \<Rightarrow> DockerNode list \<Rightarrow> DockerNode list"
where
  "repositories_loop element refreshTokenARC' accessTokenARC' [] nodes = nodes"
| "repositories_loop element refreshTokenARC' accessTokenARC' (r # rest) nodes =
     repositories_loop element refreshTokenARC' accessTokenARC' rest
       (nodes @ [(DockerNode_new r Collapsed ''azureRepository'' None Null)
                   \<lparr>repository := RepoString (label element),
                    subscription := subscription element,
                    accessTokenARC := accessTokenARC',
                    refreshTokenARC := refreshTokenARC'\<rparr>])"

text \<open>
  The callback of the catalog request. \<open>repositories.length\<close> of an undefined
  \<open>repositories\<close> throws a TypeError; an empty body raises the warning "no repos" in the
  host's window and pushes nothing.
\<close>

definition catalog_callback ::
  "backend \<Rightarrow> DockerNode \<Rightarrow> string option \<Rightarrow> string option \<Rightarrow> http_outcome \<Rightarrow>
   DockerNode list \<Rightarrow> error + DockerNode list"
where
  "catalog_callback B element refreshTokenARC' accessTokenARC' out nodes =
     (case body out of
        None \<Rightarrow> Inl TypeError
      | Some b \<Rightarrow>
          if length b > 0
          then (case JSON_parse B b of
                  Inl e \<Rightarrow> Inl e
                | Inr j \<Rightarrow>
                    (case repositories j of
                       None \<Rightarrow> Inl TypeError
                     | Some rs \<Rightarrow>
                         Inr (repositories_loop element refreshTokenARC' accessTokenARC' rs nodes)))
          else Inr nodes)"

text \<open>
  When the tokens are not both truthy the branch returns nothing and the function goes on
  to its last test, \<open>element.contextValue === 'azureRepository'\<close>, which fails for this
  element: the function ends without a \<open>return\<close> and resolves with \<open>undefined\<close>.
\<close>

definition expand_azureRegistry ::
  "backend \<Rightarrow> DockerNode \<Rightarrow> (error + DockerNode list option) option"
where
  "expand_azureRegistry B element =
     (case subscription element of
        None \<Rightarrow> Some (Inl TypeError)
      | Some sub \<Rightarrow>
          await (acquireToken B (session sub))
            (\<lambda>tok.
               if truthy (accessToken tok) \<and> truthy (refreshToken tok)
               then
                 request_await B
                   (exchange_request (label element) (Text (Some (label element)))
                      (tenantId (SubscriptionItem.subscription sub)) tok)
                   (exchange_callback B) None
                   (\<lambda>refreshTokenARC'.
                 request_await B
                   (token_request (label element) (Text (Some (label element)))
                      ''registry:catalog:*'' refreshTokenARC')
                   (token_callback B) None
                   (\<lambda>accessTokenARC'.
                 request_await B
                   (catalog_request (label element) accessTokenARC')
                   (catalog_callback B element refreshTokenARC' accessTokenARC') []
                   (\<lambda>nodes. Some (Inr (Some nodes)))))
               else Some (Inr None)))"

fun tags_loop ::
  "DockerNode \<Rightarrow> string option \<Rightarrow> string list \<Rightarrow> DockerNode list \<Rightarrow> DockerNode list"
where
  "tags_loop element accessTokenARC' [] nodes = nodes"
| "tags_loop element accessTokenARC' (t # rest) nodes =
     tags_loop element accessTokenARC' rest
       (nodes @ [(DockerNode_new (label element @ '':'' @ t) None_state ''azureRepositoryTag'' None Null)
                   \<lparr>repository := repository element,
                    subscription := subscription element,
                    accessTokenARC := accessTokenARC',
                    refreshTokenARC := refreshTokenARC element\<rparr>])"

text \<open>
  The callback of the tag request starts with \<open>if (err) { return []; }\<close>.
\<close>

definition tags_callback ::
  "backend \<Rightarrow> DockerNode \<Rightarrow> string option \<Rightarrow> http_outcome \<Rightarrow>
   DockerNode list \<Rightarrow> error + DockerNode list"
where
  "tags_callback B element accessTokenARC' out nodes =
     (if err out \<noteq> None then Inr nodes
      else case body out of
        None \<Rightarrow> Inl TypeError
      | Some b \<Rightarrow>
          if length b > 0
          then (case JSON_parse B b of
                  Inl e \<Rightarrow> Inl e
                | Inr j \<Rightarrow>
                    (case tags j of
                       None \<Rightarrow> Inl TypeError
                     | Some ts \<Rightarrow> Inr (tags_loop element accessTokenARC' ts nodes)))
          else Inr nodes)"

definition expand_azureRepository ::
  "backend \<Rightarrow> DockerNode \<Rightarrow> (error + DockerNode list option) option"
where
  "expand_azureRepository B element =
     (case subscription element of
        None \<Rightarrow> Some (Inl TypeError)
      | Some sub \<Rightarrow>
          await (acquireToken B (session sub))
            (\<lambda>tok.
               if truthy (accessToken tok) \<and> truthy (refreshToken tok)
               then
                 request_await B
                   (exchange_request (repository_string (repository element))
                      (Any_value (repository element))
                      (tenantId (SubscriptionItem.subscription sub)) tok)
                   (exchange_callback B) None
                   (\<lambda>refreshTokenARC'.
                 request_await B
                   (token_request (repository_string (repository element))
                      (Any_value (repository element))
                      (''repository:'' @ label element @ '':pull'') refreshTokenARC')
                   (token_callback B) None
                   (\<lambda>accessTokenARC'.
                 request_await B
                   (tags_request (repository_string (repository element)) (label element)
                      accessTokenARC')
                   (tags_callback B element accessTokenARC') []
                   (\<lambda>nodes. Some (Inr (Some nodes)))))
               else Some (Inr None)))"

subsection \<open>\<open>getDockerNodes\<close> and \<open>getChildren\<close>\<close>

text \<open>
  The function returns the provider, which only the branch for no element changes, and
  how its promise settles: \<open>Some (Inr (Some nodes))\<close> resolves with an array,
  \<open>Some (Inr None)\<close> resolves with \<open>undefined\<close> (no branch returned).
\<close>

definition getDockerNodes ::
  "backend \<Rightarrow> DockerNode DockerExplorerProvider \<Rightarrow> DockerNode option \<Rightarrow>
   DockerNode DockerExplorerProvider \<times> (error + DockerNode list option) option"
where
  "getDockerNodes B p element =
     (case element of
        None \<Rightarrow>
          (let p1 = p\<lparr>imagesNode :=
                       Some (DockerNode_new ''Images'' Collapsed ''imagesLabel'' None Null)\<rparr>;
               p2 = p1\<lparr>containersNode :=
                       Some (DockerNode_new ''Containers'' Collapsed ''containersLabel'' None Null)\<rparr>;
               p3 = p2\<lparr>registriesNode :=
                       Some (DockerNode_new ''Registries'' Collapsed ''registriesLabel'' None Null)\<rparr>
           in (p3, Some (Inr (Some ([] @ [the (imagesNode p3)] @ [the (containersNode p3)]
                                       @ [the (registriesNode p3)])))))
      | Some e \<Rightarrow>
          (p,
           if contextValue e = ''imagesLabel'' then expand_images B
           else if contextValue e = ''containersLabel'' then expand_containers B
           else if contextValue e = ''registriesLabel'' then expand_registries B
           else if contextValue e = ''dockerHubRegistry'' then expand_dockerHubRegistry B p
           else if contextValue e = ''dockerHubRegistryImage'' then expand_dockerHubRegistryImage B e
           else if contextValue e = ''azureSubscription'' then expand_azureSubscription B e
           else if contextValue e = ''azureRegistry'' then expand_azureRegistry B e
           else if contextValue e = ''azureRepository'' then expand_azureRepository B e
           else Some (Inr None)))"

definition getChildren ::
  "backend \<Rightarrow> DockerNode DockerExplorerProvider \<Rightarrow> DockerNode option \<Rightarrow>
   DockerNode DockerExplorerProvider \<times> (error + DockerNode list option) option"
where
  "getChildren B p element = getDockerNodes B p element"

definition getTreeItem :: "DockerNode \<Rightarrow> DockerNode" where
  "getTreeItem element = element"


subsection \<open>Node objects and their identity\<close>

text \<open>
  The three node fields of the provider hold references to node objects, and so do the
  arrays \<open>getChildren\<close> resolves with. To tell a new object from an old object with new
  contents, the objects live in a store: the sequence of all node objects constructed so
  far. The reference of an object is its position in the store, and
  \<open>new DockerNode(...)\<close> appends an object.
\<close>

type_synonym object_store = "DockerNode list"

definition new_object :: "DockerNode \<Rightarrow> object_store \<Rightarrow> nat \<times> object_store" where
  "new_object node store = (length store, store @ [node])"

definition new_objects :: "DockerNode list \<Rightarrow> object_store \<Rightarrow> nat list \<times> object_store" where
  "new_objects nodes store = ([length store ..< length store + length nodes], store @ nodes)"

text \<open>The provider over values that a provider over references stands for.\<close>

definition provider_values ::
  "object_store \<Rightarrow> nat DockerExplorerProvider \<Rightarrow> DockerNode DockerExplorerProvider"
where
  "provider_values store p =
     \<lparr>onDidChangeTreeData = map (map_option (\<lambda>r. store ! r)) (onDidChangeTreeData p),
      imagesNode = map_option (\<lambda>r. store ! r) (imagesNode p),
      containersNode = map_option (\<lambda>r. store ! r) (containersNode p),
      registriesNode = map_option (\<lambda>r. store ! r) (registriesNode p),
      debounceTimer = debounceTimer p,
      keytar = keytar p\<rparr>"

text \<open>
  \<open>getDockerNodes\<close> over the store. Without an element it constructs the three category
  nodes, assigns their references to the fields and pushes them (lines 114 to 120). With
  an element it reads the fields of the element, assigns to no field of the provider and
  to no object it did not construct itself, and every node it pushes is one it
  constructed: the nodes of the expansion over values become new objects. Objects
  constructed by a call that then rejects are referenced by nothing and are left out.
\<close>

definition getDockerNodes_objects ::
  "backend \<Rightarrow> nat DockerExplorerProvider \<times> object_store \<Rightarrow> DockerNode option \<Rightarrow>
   (nat DockerExplorerProvider \<times> object_store) \<times> (error + nat list option) option"
where
  "getDockerNodes_objects B s element =
     (let (p, store) = s
      in case element of
           None \<Rightarrow>
             (let (r1, store1) =
                    new_object (DockerNode_new ''Images'' Collapsed ''imagesLabel'' None Null) store;
                  p1 = p\<lparr>imagesNode := Some r1\<rparr>;
                  (r2, store2) =
                    new_object (DockerNode_new ''Containers'' Collapsed ''containersLabel'' None Null)
                      store1;
                  p2 = p1\<lparr>containersNode := Some r2\<rparr>;
                  (r3, store3) =
                    new_object (DockerNode_new ''Registries'' Collapsed ''registriesLabel'' None Null)
                      store2;
                  p3 = p2\<lparr>registriesNode := Some r3\<rparr>
              in ((p3, store3),
                  Some (Inr (Some ([] @ [the (imagesNode p3)] @ [the (containersNode p3)]
                                      @ [the (registriesNode p3)])))))
         | Some e \<Rightarrow>
             (case snd (getDockerNodes B (provider_values store p) (Some e)) of
                None \<Rightarrow> ((p, store), None)
              | Some (Inl failure) \<Rightarrow> ((p, store), Some (Inl failure))
              | Some (Inr None) \<Rightarrow> ((p, store), Some (Inr None))
              | Some (Inr (Some nodes)) \<Rightarrow>
                  (let (rs, store') = new_objects nodes store
                   in ((p, store'), Some (Inr (Some rs))))))"

definition getChildren_objects ::
  "backend \<Rightarrow> nat DockerExplorerProvider \<times> object_store \<Rightarrow> DockerNode option \<Rightarrow>
   (nat DockerExplorerProvider \<times> object_store) \<times> (error + nat list option) option"
where
  "getChildren_objects B s element = getDockerNodes_objects B s element"


subsection \<open>The provider as a state machine\<close>

text \<open>
  What can happen to a provider: a call of one of its methods, or the event loop firing a
  timeout. \<open>getChildren\<close> comes with the backend it meets; only its effect on the provider
  is kept here, which it has before its first \<open>await\<close>.
\<close>

datatype call =
    Refresh
  | RefreshImages
  | RefreshContainers
  | RefreshRegistries
  | GetTreeItem DockerNode
  | GetChildren backend "DockerNode option"
  | SetAutoRefresh "js_number option"
  | TimerFires nat

fun step ::
  "call \<Rightarrow> DockerNode DockerExplorerProvider \<times> runtime \<Rightarrow> DockerNode DockerExplorerProvider \<times> runtime"
where
  "step Refresh (p, rt) = (refresh p, rt)"
| "step RefreshImages (p, rt) = (refreshImages p, rt)"
| "step RefreshContainers (p, rt) = (refreshContainers p, rt)"
| "step RefreshRegistries (p, rt) = (refreshRegistries p, rt)"
| "step (GetTreeItem element) (p, rt) = (p, rt)"
| "step (GetChildren B element) (p, rt) = (fst (getChildren B p element), rt)"
| "step (SetAutoRefresh interval) (p, rt) = setAutoRefresh interval (p, rt)"
| "step (TimerFires h) (p, rt) = timer_fires h (p, rt)"

fun run ::
  "call list \<Rightarrow> DockerNode DockerExplorerProvider \<times> runtime \<Rightarrow> DockerNode DockerExplorerProvider \<times> runtime"
where
  "run [] s = s"
| "run (c # cs) s = run cs (step c s)"

subsection \<open>A backend for concrete runs\<close>

text \<open>
  A backend in which the daemon has nothing, nobody is logged in, no token is handed out
  and no HTTP exchange reaches a server; its \<open>localeCompare\<close> compares strings character by character. Concrete
  runs override the collaborators they are about.
\<close>

definition offline_backend :: backend where
  "offline_backend =
     \<lparr>docker_getImageDescriptors = Inr None,
      docker_getContainerDescriptors = Inr None,
      azureAccount_waitForLogin = Inr False,
      azureAccount_sessions = [],
      subscriptions_list = (\<lambda>c. Inr \<lparr>items = [], nextLink = None\<rparr>),
      subscriptions_listNext = (\<lambda>c l. Inr \<lparr>items = [], nextLink = None\<rparr>),
      localeCompare = (\<lambda>a b. if a < b then - 1 else if b < a then 1 else 0),
      keytar_getPassword = Inr None,
      dockerHubLogin = Inr None,
      dockerHubAPI_loggedInUser = Inr None,
      dockerHubAPI_repositories = (\<lambda>u. Inr []),
      dockerHubAPI_repository = (\<lambda>n r. Inr \<lparr>namespace = n, Repository.name = r\<rparr>),
      dockerHubAPI_tags = (\<lambda>n r. Inr []),
      registries_list = (\<lambda>c s. Inr []),
      context_acquireToken = (\<lambda>s. (False, Some (Failure ''no token''), None)),
      http_server = (\<lambda>r. Transport_error (Failure ''offline'')),
      JSON_parse = (\<lambda>b. Inl SyntaxError)\<rparr>"


text \<open>
  The specification's reading of the images expansion: a descriptor with repo-tags gives
  one node per tag, labelled by the tag, and a descriptor without them gives a single node
  labelled \<open><none>:<none>\<close>; every node carries the descriptor.
\<close>

definition image_nodes :: "ImageDesc \<Rightarrow> DockerNode list" where
  "image_nodes img =
     map (\<lambda>t. (DockerNode_new t None_state ''image'' None Omitted)\<lparr>imageDesc := Some img\<rparr>)
       (case RepoTags img of None \<Rightarrow> [''<none>:<none>''] | Some ts \<Rightarrow> ts)"


text \<open>
  The nodes the host hands back to \<open>getChildren\<close> in the concrete runs: two of the
  category nodes, a subscription item and the node of a registry in that subscription.
\<close>

definition images_category :: DockerNode where
  "images_category = DockerNode_new ''Images'' Collapsed ''imagesLabel'' None Null"

definition containers_category :: DockerNode where
  "containers_category = DockerNode_new ''Containers'' Collapsed ''containersLabel'' None Null"









section \<open>Properties\<close>

lemma listAll_loop_empty:
  "listAll_loop listNext \<lparr>items = [], nextLink = None\<rparr> all = Some (Inr all)"
  by (subst listAll_loop.simps) (simp add: truthy_def)

lemma listAll_loop_last:
  "\<not> truthy (nextLink p) \<Longrightarrow> listAll_loop listNext p all = Some (Inr (all @ items p))"
  by (subst listAll_loop.simps) (simp add: listAll_loop_empty)

lemma listAll_loop_linked:
  "linked_pages listNext (p # ps) \<Longrightarrow>
   listAll_loop listNext p all = Some (Inr (all @ concat (map items (p # ps))))"
proof (induction ps arbitrary: p all)
  case Nil
  then show ?case by (simp add: listAll_loop_last)
next
  case (Cons q qs)
  from Cons.prems have link: "truthy (nextLink p)" "listNext (the (nextLink p)) = Inr q"
    and rest: "linked_pages listNext (q # qs)" by simp_all
  have "listAll_loop listNext p all = listAll_loop listNext q (all @ items p)"
    by (subst listAll_loop.simps) (simp add: link)
  with Cons.IH [OF rest] show ?case by simp
qed

text \<open>
  C4. Over any finite sequence of linked pages, \<open>listAll\<close> returns and its result is the
  in-order concatenation of the pages' items: a single page without a continuation link
  gives that page's items, two linked pages give the first page's items followed by the
  second's.
\<close>

theorem listAll_concatenates_pages:
  "linked_pages listNext (p # ps) \<Longrightarrow>
   listAll listNext (Inr p) = Some (Inr (concat (map items (p # ps))))"
  using listAll_loop_linked [of listNext p ps "[]"] by (simp add: listAll_def)

theorem listAll_concatenates_pages_witness:
  "linked_pages
     (\<lambda>l. if l = ''page2'' then Inr \<lparr>items = [3::nat], nextLink = None\<rparr> else Inl (Failure l))
     [\<lparr>items = [1, 2], nextLink = Some ''page2''\<rparr>, \<lparr>items = [3], nextLink = None\<rparr>] \<and>
   listAll
     (\<lambda>l. if l = ''page2'' then Inr \<lparr>items = [3::nat], nextLink = None\<rparr> else Inl (Failure l))
     (Inr \<lparr>items = [1, 2], nextLink = Some ''page2''\<rparr>) = Some (Inr [1, 2, 3])"
  using listAll_concatenates_pages
    [of "\<lambda>l. if l = ''page2'' then Inr \<lparr>items = [3::nat], nextLink = None\<rparr> else Inl (Failure l)"
        "\<lparr>items = [1, 2], nextLink = Some ''page2''\<rparr>" "[\<lparr>items = [3], nextLink = None\<rparr>]"]
  by (simp add: truthy_def)


subsection \<open>Images\<close>

lemma repoTags_loop_eq:
  "repoTags_loop img ts nodes =
   nodes @ map (\<lambda>t. (DockerNode_new t None_state ''image'' None Omitted)\<lparr>imageDesc := Some img\<rparr>) ts"
  by (induction ts arbitrary: nodes) simp_all

lemma images_loop_eq:
  "images_loop imgs nodes = nodes @ concat (map image_nodes imgs)"
  by (induction imgs arbitrary: nodes)
     (simp_all add: repoTags_loop_eq image_nodes_def split: option.splits)

lemma expand_images_eq:
  "docker_getImageDescriptors B = Inr (Some imgs) \<Longrightarrow>
   expand_images B = Some (Inr (Some (concat (map image_nodes imgs))))"
  by (cases imgs) (simp_all add: expand_images_def await_def images_loop_eq)

text \<open>
  C2, as amended. Expanding the images category over the descriptors the daemon returns
  resolves with, for every descriptor in order, one node per entry of \<open>RepoTags\<close> labelled
  by that entry when \<open>RepoTags\<close> is present (so N nodes for N entries, and none for an
  empty array), and one node labelled \<open><none>:<none>\<close> when \<open>RepoTags\<close> is absent; every
  node carries its descriptor.
\<close>

theorem images_one_node_per_repo_tag:
  assumes "contextValue e = ''imagesLabel''"
    and "docker_getImageDescriptors B = Inr (Some imgs)"
  shows "\<exists>nodes. snd (getChildren B p (Some e)) = Some (Inr (Some nodes)) \<and>
     map (\<lambda>n. (label n, imageDesc n)) nodes =
       concat (map (\<lambda>img. map (\<lambda>l. (l, Some img))
                      (case RepoTags img of None \<Rightarrow> [''<none>:<none>''] | Some ts \<Rightarrow> ts)) imgs)"
proof -
  have "snd (getChildren B p (Some e)) = Some (Inr (Some (concat (map image_nodes imgs))))"
    using assms by (simp add: getChildren_def getDockerNodes_def expand_images_eq)
  moreover have "map (\<lambda>n. (label n, imageDesc n)) (concat (map image_nodes imgs)) =
       concat (map (\<lambda>img. map (\<lambda>l. (l, Some img))
                      (case RepoTags img of None \<Rightarrow> [''<none>:<none>''] | Some ts \<Rightarrow> ts)) imgs)"
    by (simp add: map_concat image_nodes_def DockerNode_new_def comp_def)
  ultimately show ?thesis by blast
qed


subsection \<open>Containers\<close>

lemma containers_loop_Inr:
  "containers_loop cs nodes = Inr res \<Longrightarrow>
   \<exists>new. res = nodes @ new \<and> length new = length cs \<and>
     (\<forall>i < length cs. container_node (cs ! i) = Inr (new ! i))"
proof (induction cs arbitrary: nodes res)
  case Nil
  then show ?case by simp
next
  case (Cons c cs)
  from Cons.prems obtain node where n: "container_node c = Inr node"
    and rest: "containers_loop cs (nodes @ [node]) = Inr res"
    by (auto split: sum.splits)
  from Cons.IH [OF rest] obtain new where new: "res = (nodes @ [node]) @ new"
    "length new = length cs" "\<forall>i < length cs. container_node (cs ! i) = Inr (new ! i)"
    by blast
  have "\<forall>i < length (c # cs). container_node ((c # cs) ! i) = Inr ((node # new) ! i)"
    using n new(3) by (auto simp: nth_Cons split: nat.splits)
  with new(1,2) show ?case by (intro exI [of _ "node # new"]) simp
qed

lemma container_node_class:
  "container_node c = Inr n \<Longrightarrow>
   containerDesc n = Some c \<and>
   (if State c = ''exited'' \<or> State c = ''dead''
    then contextValue n = ''stoppedContainer'' \<and> iconPath n = Some mono_moby_small
    else contextValue n = ''runningContainer'' \<and> iconPath n = Some moby_small)"
  by (auto simp: container_node_def DockerNode_new_def split: list.splits if_splits)

lemma expand_containers_Some:
  assumes "docker_getContainerDescriptors B = Inr (Some cs)"
  shows "expand_containers B =
     (case containers_loop cs [] of Inl e \<Rightarrow> Some (Inl e) | Inr nodes \<Rightarrow> Some (Inr (Some nodes)))"
  using assms by (cases cs) (simp_all add: expand_containers_def await_def)

text \<open>
  C5. Whenever the containers expansion resolves, it has one node per container descriptor,
  in order, and each node is in exactly one of the two icon groups: a container whose state
  is \<open>exited\<close> or \<open>dead\<close> is a \<open>stoppedContainer\<close> with the monochrome icon, a container in
  any other state is a \<open>runningContainer\<close> with the coloured icon.
\<close>

theorem containers_two_icon_groups:
  assumes "contextValue e = ''containersLabel''"
    and "docker_getContainerDescriptors B = Inr (Some cs)"
    and "snd (getChildren B p (Some e)) = Some (Inr (Some nodes))"
  shows "length nodes = length cs \<and>
     (\<forall>i < length cs.
        containerDesc (nodes ! i) = Some (cs ! i) \<and>
        (if State (cs ! i) = ''exited'' \<or> State (cs ! i) = ''dead''
         then contextValue (nodes ! i) = ''stoppedContainer'' \<and>
              iconPath (nodes ! i) = Some mono_moby_small
         else contextValue (nodes ! i) = ''runningContainer'' \<and>
              iconPath (nodes ! i) = Some moby_small))"
proof -
  have "expand_containers B = Some (Inr (Some nodes))"
    using assms(1,3) by (simp add: getChildren_def getDockerNodes_def)
  then have "containers_loop cs [] = Inr nodes"
    by (simp add: expand_containers_Some [OF assms(2)] split: sum.splits)
  from containers_loop_Inr [OF this] have len: "length nodes = length cs"
    and each: "\<forall>i < length cs. container_node (cs ! i) = Inr (nodes ! i)" by auto
  show ?thesis using len each container_node_class by blast
qed

lemma containers_loop_total:
  "(\<exists>res. containers_loop cs nodes = Inr res) \<longleftrightarrow> (\<forall>c \<in> set cs. Names c \<noteq> [])"
proof (induction cs arbitrary: nodes)
  case Nil
  then show ?case by simp
next
  case (Cons c cs)
  show ?case
  proof (cases "Names c")
    case Nil
    then show ?thesis by (simp add: container_node_def split: prod.splits)
  next
    case (Cons n ns)
    then obtain node where "container_node c = Inr node"
      by (cases "State c \<in> set [''exited'', ''dead'']") (simp_all add: container_node_def)
    then show ?thesis using Cons.IH Cons by simp
  qed
qed

lemma containers_loop_error:
  "containers_loop cs nodes = Inl e \<Longrightarrow> e = TypeError"
  by (induction cs arbitrary: nodes)
     (auto simp: container_node_def split: sum.splits list.splits prod.splits)

text \<open>
  C9, as amended. The containers expansion resolves with nodes exactly when every container
  descriptor has a non-empty \<open>Names\<close> array; the first name may be empty. With a descriptor
  whose \<open>Names\<close> array is empty, reading the first name is out of bounds and the expansion
  rejects with a TypeError.
\<close>

theorem containers_total_iff_names:
  assumes "contextValue e = ''containersLabel''"
    and "docker_getContainerDescriptors B = Inr (Some cs)"
  shows "((\<exists>nodes. snd (getChildren B p (Some e)) = Some (Inr (Some nodes))) \<longleftrightarrow>
            (\<forall>c \<in> set cs. Names c \<noteq> [])) \<and>
         ((\<exists>c \<in> set cs. Names c = []) \<longrightarrow>
            snd (getChildren B p (Some e)) = Some (Inl TypeError))"
proof -
  have r: "snd (getChildren B p (Some e)) =
      (case containers_loop cs [] of Inl e \<Rightarrow> Some (Inl e) | Inr nodes \<Rightarrow> Some (Inr (Some nodes)))"
    using assms(1) by (simp add: getChildren_def getDockerNodes_def expand_containers_Some [OF assms(2)])
  show ?thesis
  proof (cases "containers_loop cs []")
    case (Inl err)
    then have "err = TypeError" by (rule containers_loop_error)
    moreover have "\<not> (\<forall>c \<in> set cs. Names c \<noteq> [])"
      using containers_loop_total [of cs "[]"] Inl by simp
    ultimately show ?thesis using r Inl by simp
  next
    case (Inr res)
    then have "\<forall>c \<in> set cs. Names c \<noteq> []"
      using containers_loop_total [of cs "[]"] by blast
    then show ?thesis using r Inr by auto
  qed
qed



subsection \<open>Provider state, refresh signals and the timer\<close>

text \<open>
  Over values, a top-level expansion stores the three category nodes, whatever the fields
  held before, returns them, and leaves the event emitter, the timer handle and the
  credential store of the provider as they were.
\<close>

lemma getChildren_top_level_values:
  "imagesNode (fst (getChildren B p None)) =
     Some (DockerNode_new ''Images'' Collapsed ''imagesLabel'' None Null) \<and>
   containersNode (fst (getChildren B p None)) =
     Some (DockerNode_new ''Containers'' Collapsed ''containersLabel'' None Null) \<and>
   registriesNode (fst (getChildren B p None)) =
     Some (DockerNode_new ''Registries'' Collapsed ''registriesLabel'' None Null) \<and>
   onDidChangeTreeData (fst (getChildren B p None)) = onDidChangeTreeData p \<and>
   debounceTimer (fst (getChildren B p None)) = debounceTimer p \<and>
   keytar (fst (getChildren B p None)) = keytar p \<and>
   snd (getChildren B p None) =
     Some (Inr (Some [the (imagesNode (fst (getChildren B p None))),
                      the (containersNode (fst (getChildren B p None))),
                      the (registriesNode (fst (getChildren B p None)))]))"
  by (simp add: getChildren_def getDockerNodes_def Let_def)


text \<open>
  The objects the fields refer to afterwards are the nodes of the expansion over values.
\<close>

lemma top_level_objects_are_the_values:
  "imagesNode (provider_values (snd (fst (getChildren_objects B (p, store) None)))
       (fst (fst (getChildren_objects B (p, store) None)))) =
     imagesNode (fst (getChildren B (provider_values store p) None)) \<and>
   containersNode (provider_values (snd (fst (getChildren_objects B (p, store) None)))
       (fst (fst (getChildren_objects B (p, store) None)))) =
     containersNode (fst (getChildren B (provider_values store p) None)) \<and>
   registriesNode (provider_values (snd (fst (getChildren_objects B (p, store) None)))
       (fst (fst (getChildren_objects B (p, store) None)))) =
     registriesNode (fst (getChildren B (provider_values store p) None))"
  by (simp add: getChildren_objects_def getDockerNodes_objects_def new_object_def Let_def
      provider_values_def getChildren_def getDockerNodes_def nth_append)

text \<open>
  C8. \<open>setAutoRefresh\<close> schedules nothing and changes nothing unless the configured interval
  (1000 when not configured) is greater than zero. When it is, the timeout of the handle the
  provider holds is cleared and one new timeout with that interval is registered and held,
  so a provider whose only pending timeout is the one it holds has exactly one pending
  timeout afterwards. A pending timeout that fires leaves the table and fires the change
  event for the images node and then for the containers node.
\<close>

theorem setAutoRefresh_debounces:
  "(\<not> greater_zero (config_get interval (Num 1000)) \<longrightarrow>
      setAutoRefresh interval (p, rt) = (p, rt)) \<and>
   (greater_zero (config_get interval (Num 1000)) \<longrightarrow>
      setAutoRefresh interval (p, rt) =
        (p\<lparr>debounceTimer := Some (next_timer rt)\<rparr>,
         rt\<lparr>timers := filter (\<lambda>(t, d). Some t \<noteq> debounceTimer p) (timers rt)
                          @ [(next_timer rt, config_get interval (Num 1000))],
            next_timer := Suc (next_timer rt)\<rparr>) \<and>
      (fst ` set (timers rt) \<subseteq> set_option (debounceTimer p) \<longrightarrow>
         timers (snd (setAutoRefresh interval (p, rt))) =
           [(next_timer rt, config_get interval (Num 1000))])) \<and>
   (h \<in> fst ` set (timers rt) \<longrightarrow>
      onDidChangeTreeData (fst (timer_fires h (p, rt))) =
        onDidChangeTreeData p @ [imagesNode p, containersNode p] \<and>
      h \<notin> fst ` set (timers (snd (timer_fires h (p, rt)))))"
proof -
  have a: "\<not> greater_zero (config_get interval (Num 1000)) \<longrightarrow>
      setAutoRefresh interval (p, rt) = (p, rt)"
    by (simp add: setAutoRefresh_def)
  have b: "greater_zero (config_get interval (Num 1000)) \<longrightarrow>
      setAutoRefresh interval (p, rt) =
        (p\<lparr>debounceTimer := Some (next_timer rt)\<rparr>,
         rt\<lparr>timers := filter (\<lambda>(t, d). Some t \<noteq> debounceTimer p) (timers rt)
                          @ [(next_timer rt, config_get interval (Num 1000))],
            next_timer := Suc (next_timer rt)\<rparr>)"
    by (cases "debounceTimer p")
       (simp_all add: setAutoRefresh_def setTimeout_def clearTimeout_def Let_def)
  have c: "fst ` set (timers rt) \<subseteq> set_option (debounceTimer p) \<Longrightarrow>
      filter (\<lambda>(t, d). Some t \<noteq> debounceTimer p) (timers rt) = []"
    by (auto simp: filter_empty_conv)
  have d: "h \<in> fst ` set (timers rt) \<longrightarrow>
      onDidChangeTreeData (fst (timer_fires h (p, rt))) =
        onDidChangeTreeData p @ [imagesNode p, containersNode p] \<and>
      h \<notin> fst ` set (timers (snd (timer_fires h (p, rt))))"
    by (auto simp: timer_fires_def debounce_callback_def refreshImages_def
        refreshContainers_def fire_def)
  show ?thesis using a b c d by simp
qed

lemma step_keeps_refs:
  assumes "\<forall>B. c \<noteq> GetChildren B None"
  shows "imagesNode (fst (step c s)) = imagesNode (fst s) \<and>
         containersNode (fst (step c s)) = containersNode (fst s) \<and>
         registriesNode (fst (step c s)) = registriesNode (fst s)"
proof (cases s)
  case (Pair p rt)
  show ?thesis
  proof (cases c)
    case (GetChildren B element)
    with assms obtain e where "element = Some e" by (cases element) auto
    with GetChildren Pair show ?thesis by (simp add: getChildren_def getDockerNodes_def)
  next
    case (SetAutoRefresh i)
    with Pair show ?thesis
      by (simp add: setAutoRefresh_def setTimeout_def Let_def split: prod.splits)
  next
    case (TimerFires h)
    with Pair show ?thesis
      by (simp add: timer_fires_def debounce_callback_def refreshImages_def
          refreshContainers_def fire_def)
  qed (simp_all add: Pair refresh_def refreshImages_def refreshContainers_def
        refreshRegistries_def fire_def)
qed

lemma run_keeps_refs:
  "\<forall>B. GetChildren B None \<notin> set cs \<Longrightarrow>
   imagesNode (fst (run cs s)) = imagesNode (fst s) \<and>
   containersNode (fst (run cs s)) = containersNode (fst s) \<and>
   registriesNode (fst (run cs s)) = registriesNode (fst s)"
proof (induction cs arbitrary: s)
  case Nil
  then show ?case by simp
next
  case (Cons c cs)
  then have "\<forall>B. c \<noteq> GetChildren B None" and "\<forall>B. GetChildren B None \<notin> set cs" by auto
  with Cons.IH [of "step c s"] step_keeps_refs [of c s] show ?case by simp
qed

text \<open>
  C10. After any sequence of calls and timer firings on a new provider that contains no
  \<open>getChildren\<close> without a node, the three node references are still undefined, so each of
  \<open>refreshImages\<close>, \<open>refreshContainers\<close> and \<open>refreshRegistries\<close> fires the change event for
  \<open>undefined\<close>.
\<close>

theorem refresh_before_top_level_fires_undefined:
  assumes "\<forall>B. GetChildren B None \<notin> set calls"
  shows "onDidChangeTreeData
           (refreshImages (fst (run calls (DockerExplorerProvider_new keytar_found, rt)))) =
         onDidChangeTreeData (fst (run calls (DockerExplorerProvider_new keytar_found, rt))) @ [None] \<and>
         onDidChangeTreeData
           (refreshContainers (fst (run calls (DockerExplorerProvider_new keytar_found, rt)))) =
         onDidChangeTreeData (fst (run calls (DockerExplorerProvider_new keytar_found, rt))) @ [None] \<and>
         onDidChangeTreeData
           (refreshRegistries (fst (run calls (DockerExplorerProvider_new keytar_found, rt)))) =
         onDidChangeTreeData (fst (run calls (DockerExplorerProvider_new keytar_found, rt))) @ [None]"
proof -
  let ?p = "fst (run calls (DockerExplorerProvider_new keytar_found, rt))"
  from run_keeps_refs [OF assms, of "(DockerExplorerProvider_new keytar_found, rt)"]
  have "imagesNode ?p = None" "containersNode ?p = None" "registriesNode ?p = None"
    by (simp_all add: DockerExplorerProvider_new_def)
  then show ?thesis
    by (simp add: refreshImages_def refreshContainers_def refreshRegistries_def fire_def)
qed



subsection \<open>Subscriptions\<close>

lemma mset_sort_insert: "mset (sort_insert cmp x ys) = add_mset x (mset ys)"
  by (induction ys) simp_all

lemma mset_Array_sort: "mset (Array_sort cmp xs) = mset xs"
  by (induction xs) (simp_all add: Array_sort_def mset_sort_insert)

lemma set_sort_insert: "set (sort_insert cmp x ys) = insert x (set ys)"
  by (induction ys) auto

lemma sorted_sort_insert:
  assumes total: "\<And>a b. 0 < cmp a b \<Longrightarrow> cmp b a \<le> 0"
    and trans: "\<And>a b c. cmp a b \<le> 0 \<Longrightarrow> cmp b c \<le> 0 \<Longrightarrow> cmp a c \<le> 0"
  shows "sorted_wrt (\<lambda>a b. cmp a b \<le> 0) ys \<Longrightarrow>
         sorted_wrt (\<lambda>a b. cmp a b \<le> 0) (sort_insert cmp x ys)"
proof (induction ys)
  case Nil
  then show ?case by simp
next
  case (Cons y ys)
  show ?case
  proof (cases "cmp x y \<le> 0")
    case True
    then have "\<forall>z \<in> set ys. cmp x z \<le> 0"
      using Cons.prems trans by auto
    with True Cons.prems show ?thesis by simp
  next
    case False
    then have "cmp y x \<le> 0" using total [of x y] by simp
    with False Cons show ?thesis by (simp add: set_sort_insert)
  qed
qed

lemma sorted_Array_sort:
  assumes total: "\<And>a b. 0 < cmp a b \<Longrightarrow> cmp b a \<le> 0"
    and trans: "\<And>a b c. cmp a b \<le> 0 \<Longrightarrow> cmp b c \<le> 0 \<Longrightarrow> cmp a c \<le> 0"
  shows "sorted_wrt (\<lambda>a b. cmp a b \<le> 0) (Array_sort cmp xs)"
proof (induction xs)
  case Nil
  then show ?case by (simp add: Array_sort_def)
next
  case (Cons x xs)
  have "Array_sort cmp (x # xs) = sort_insert cmp x (Array_sort cmp xs)"
    by (simp add: Array_sort_def)
  with sorted_sort_insert [of cmp, OF total trans Cons.IH] show ?case by simp
qed

text \<open>
  C6. With a \<open>localeCompare\<close> that is a consistent comparison (of two strings one goes
  before the other, and going before is transitive), the subscription items
  \<open>getSubscriptions\<close> returns are sorted by label under \<open>localeCompare\<close>, and they are the
  items collected from the sessions, rearranged.
\<close>

theorem subscriptions_sorted_by_label:
  assumes total: "\<forall>a b. 0 < localeCompare B a b \<longrightarrow> localeCompare B b a \<le> 0"
    and trans: "\<forall>a b c. localeCompare B a b \<le> 0 \<and> localeCompare B b c \<le> 0 \<longrightarrow>
                  localeCompare B a c \<le> 0"
    and result: "getSubscriptions B = Some (Inr subs)"
  shows "sorted_wrt
           (\<lambda>a b. localeCompare B (SubscriptionItem.label a) (SubscriptionItem.label b) \<le> 0) subs \<and>
         (\<exists>collected. sessions_loop B (azureAccount_sessions B) [] = Some (Inr collected) \<and>
                      mset subs = mset collected)"
proof -
  let ?cmp = "\<lambda>a b. localeCompare B (SubscriptionItem.label a) (SubscriptionItem.label b)"
  from result obtain collected
    where loop: "sessions_loop B (azureAccount_sessions B) [] = Some (Inr collected)"
      and subs: "subs = Array_sort ?cmp collected"
    by (auto simp: getSubscriptions_def await_def split: option.splits sum.splits)
  have "sorted_wrt (\<lambda>a b. ?cmp a b \<le> 0) (Array_sort ?cmp collected)"
  proof (rule sorted_Array_sort)
    show "\<And>a b. 0 < ?cmp a b \<Longrightarrow> ?cmp b a \<le> 0" using total by blast
    show "\<And>a b c. ?cmp a b \<le> 0 \<Longrightarrow> ?cmp b c \<le> 0 \<Longrightarrow> ?cmp a c \<le> 0"
      using trans by blast
  qed
  with loop subs show ?thesis by (simp add: mset_Array_sort)
qed



text \<open>
  \<open>getSubscriptions\<close> returns when the listing of every session is a finite sequence of
  linked pages.
\<close>

lemma sessions_loop_returns:
  assumes "\<forall>s \<in> set ss. \<exists>p ps. subscriptions_list B (credentials s) = Inr p \<and>
             linked_pages (subscriptions_listNext B (credentials s)) (p # ps)"
  shows "\<exists>collected. sessions_loop B ss subscriptionItems = Some (Inr collected)"
  using assms
proof (induction ss arbitrary: subscriptionItems)
  case Nil
  then show ?case by simp
next
  case (Cons s ss)
  then obtain p ps where first: "subscriptions_list B (credentials s) = Inr p"
    and pages: "linked_pages (subscriptions_listNext B (credentials s)) (p # ps)"
    by auto
  have "listAll (subscriptions_listNext B (credentials s)) (subscriptions_list B (credentials s)) =
      Some (Inr (concat (map items (p # ps))))"
    using listAll_loop_linked [OF pages, of "[]"] by (simp add: listAll_def first)
  moreover have "\<exists>collected. sessions_loop B ss
      (subscriptionItems @ map (subscription_item s) (concat (map items (p # ps)))) =
      Some (Inr collected)"
    using Cons by simp
  ultimately show ?case by (simp add: await_def)
qed

lemma getSubscriptions_returns:
  assumes "\<forall>s \<in> set (azureAccount_sessions B).
             \<exists>p ps. subscriptions_list B (credentials s) = Inr p \<and>
               linked_pages (subscriptions_listNext B (credentials s)) (p # ps)"
  shows "\<exists>subs. getSubscriptions B = Some (Inr subs)"
proof -
  from sessions_loop_returns [OF assms, of "[]"] obtain collected
    where "sessions_loop B (azureAccount_sessions B) [] = Some (Inr collected)" by blast
  then show ?thesis by (simp add: getSubscriptions_def await_def)
qed

text \<open>
  The registries expansion puts the Docker Hub node first and then one node per
  subscription item, in the order \<open>getSubscriptions\<close> returned them.
\<close>

lemma subs_loop_eq:
  "subs_loop subs nodes =
   nodes @ map (\<lambda>sub. (DockerNode_new (SubscriptionItem.label sub) Collapsed ''azureSubscription'' None Null)
                         \<lparr>subscription := Some sub\<rparr>) subs"
  by (induction subs arbitrary: nodes) simp_all

lemma registries_nodes_follow_subscriptions:
  assumes "contextValue e = ''registriesLabel''"
    and "azureAccount_waitForLogin B = Inr True"
    and "getSubscriptions B = Some (Inr subs)"
  shows "\<exists>nodes. snd (getChildren B p (Some e)) = Some (Inr (Some nodes)) \<and>
           map label nodes = ''Docker Hub'' # map SubscriptionItem.label subs \<and>
           map subscription (tl nodes) = map Some subs"
  using assms
  by (simp add: getChildren_def getDockerNodes_def expand_registries_def await_def subs_loop_eq
      DockerNode_new_def comp_def)

subsection \<open>Concrete runs: images and containers\<close>

theorem images_one_node_per_repo_tag_witness:
  "contextValue images_category = ''imagesLabel'' \<and>
   docker_getImageDescriptors
     (offline_backend\<lparr>docker_getImageDescriptors :=
        Inr (Some [\<lparr>Id' = ''sha256:1'', RepoTags = Some [''nginx:latest'', ''nginx:1.13'']\<rparr>,
                   \<lparr>Id' = ''sha256:2'', RepoTags = None\<rparr>])\<rparr>) =
     Inr (Some [\<lparr>Id' = ''sha256:1'', RepoTags = Some [''nginx:latest'', ''nginx:1.13'']\<rparr>,
                \<lparr>Id' = ''sha256:2'', RepoTags = None\<rparr>]) \<and>
   (\<exists>nodes.
      snd (getChildren
        (offline_backend\<lparr>docker_getImageDescriptors :=
           Inr (Some [\<lparr>Id' = ''sha256:1'', RepoTags = Some [''nginx:latest'', ''nginx:1.13'']\<rparr>,
                      \<lparr>Id' = ''sha256:2'', RepoTags = None\<rparr>])\<rparr>)
        (DockerExplorerProvider_new True) (Some images_category)) = Some (Inr (Some nodes)) \<and>
      map (\<lambda>n. (label n, imageDesc n)) nodes =
        [(''nginx:latest'', Some \<lparr>Id' = ''sha256:1'', RepoTags = Some [''nginx:latest'', ''nginx:1.13'']\<rparr>),
         (''nginx:1.13'', Some \<lparr>Id' = ''sha256:1'', RepoTags = Some [''nginx:latest'', ''nginx:1.13'']\<rparr>),
         (''<none>:<none>'', Some \<lparr>Id' = ''sha256:2'', RepoTags = None\<rparr>)])"
  using images_one_node_per_repo_tag
    [of images_category
        "offline_backend\<lparr>docker_getImageDescriptors :=
           Inr (Some [\<lparr>Id' = ''sha256:1'', RepoTags = Some [''nginx:latest'', ''nginx:1.13'']\<rparr>,
                      \<lparr>Id' = ''sha256:2'', RepoTags = None\<rparr>])\<rparr>"
        "[\<lparr>Id' = ''sha256:1'', RepoTags = Some [''nginx:latest'', ''nginx:1.13'']\<rparr>,
          \<lparr>Id' = ''sha256:2'', RepoTags = None\<rparr>]"
        "DockerExplorerProvider_new True"]
  by (simp add: images_category_def DockerNode_new_def)

theorem images_empty_repo_tags_counterexample:
  "RepoTags \<lparr>Id' = ''sha256:3'', RepoTags = Some []\<rparr> = Some [] \<and>
   snd (getChildren
     (offline_backend\<lparr>docker_getImageDescriptors :=
        Inr (Some [\<lparr>Id' = ''sha256:3'', RepoTags = Some []\<rparr>])\<rparr>)
     (DockerExplorerProvider_new True) (Some images_category)) = Some (Inr (Some []))"
  by (simp add: getChildren_def getDockerNodes_def expand_images_def await_def
      images_category_def DockerNode_new_def)

theorem containers_two_icon_groups_witness:
  "contextValue containers_category = ''containersLabel'' \<and>
   docker_getContainerDescriptors
     (offline_backend\<lparr>docker_getContainerDescriptors :=
        Inr (Some [\<lparr>Image = ''nginx'', Names = [''/web''], State = ''running'', Status = ''Up 2 hours''\<rparr>,
                   \<lparr>Image = ''redis'', Names = [''/cache''], State = ''exited'', Status = ''Exited (0)''\<rparr>])\<rparr>) =
     Inr (Some [\<lparr>Image = ''nginx'', Names = [''/web''], State = ''running'', Status = ''Up 2 hours''\<rparr>,
                \<lparr>Image = ''redis'', Names = [''/cache''], State = ''exited'', Status = ''Exited (0)''\<rparr>]) \<and>
   snd (getChildren
     (offline_backend\<lparr>docker_getContainerDescriptors :=
        Inr (Some [\<lparr>Image = ''nginx'', Names = [''/web''], State = ''running'', Status = ''Up 2 hours''\<rparr>,
                   \<lparr>Image = ''redis'', Names = [''/cache''], State = ''exited'', Status = ''Exited (0)''\<rparr>])\<rparr>)
     (DockerExplorerProvider_new True) (Some containers_category)) =
     Some (Inr (Some
       [(DockerNode_new ''nginx (web) [Up 2 hours]'' None_state ''runningContainer'' None (Icon moby_small))
          \<lparr>containerDesc := Some \<lparr>Image = ''nginx'', Names = [''/web''], State = ''running'', Status = ''Up 2 hours''\<rparr>\<rparr>,
        (DockerNode_new ''redis (cache) [Exited (0)]'' None_state ''stoppedContainer'' None (Icon mono_moby_small))
          \<lparr>containerDesc := Some \<lparr>Image = ''redis'', Names = [''/cache''], State = ''exited'', Status = ''Exited (0)''\<rparr>\<rparr>])) \<and>
   contextValue
     ([(DockerNode_new ''nginx (web) [Up 2 hours]'' None_state ''runningContainer'' None (Icon moby_small))
          \<lparr>containerDesc := Some \<lparr>Image = ''nginx'', Names = [''/web''], State = ''running'', Status = ''Up 2 hours''\<rparr>\<rparr>,
        (DockerNode_new ''redis (cache) [Exited (0)]'' None_state ''stoppedContainer'' None (Icon mono_moby_small))
          \<lparr>containerDesc := Some \<lparr>Image = ''redis'', Names = [''/cache''], State = ''exited'', Status = ''Exited (0)''\<rparr>\<rparr>] ! 1)
     = ''stoppedContainer''"
proof -
  let ?cs = "[\<lparr>Image = ''nginx'', Names = [''/web''], State = ''running'', Status = ''Up 2 hours''\<rparr>,
              \<lparr>Image = ''redis'', Names = [''/cache''], State = ''exited'', Status = ''Exited (0)''\<rparr>]"
  let ?B = "offline_backend\<lparr>docker_getContainerDescriptors := Inr (Some ?cs)\<rparr>"
  let ?nodes = "[(DockerNode_new ''nginx (web) [Up 2 hours]'' None_state ''runningContainer'' None (Icon moby_small))
          \<lparr>containerDesc := Some \<lparr>Image = ''nginx'', Names = [''/web''], State = ''running'', Status = ''Up 2 hours''\<rparr>\<rparr>,
        (DockerNode_new ''redis (cache) [Exited (0)]'' None_state ''stoppedContainer'' None (Icon mono_moby_small))
          \<lparr>containerDesc := Some \<lparr>Image = ''redis'', Names = [''/cache''], State = ''exited'', Status = ''Exited (0)''\<rparr>\<rparr>]"
  have h1: "contextValue containers_category = ''containersLabel''"
    by (simp add: containers_category_def DockerNode_new_def)
  have h2: "docker_getContainerDescriptors ?B = Inr (Some ?cs)" by simp
  have h3: "snd (getChildren ?B (DockerExplorerProvider_new True) (Some containers_category)) =
      Some (Inr (Some ?nodes))"
    by (simp add: getChildren_def getDockerNodes_def expand_containers_def await_def
        container_node_def containers_category_def DockerNode_new_def)
  from containers_two_icon_groups [OF h1 h2 h3, THEN conjunct2, THEN spec, of 1]
  have "contextValue (?nodes ! 1) = ''stoppedContainer''" by simp
  with h1 h2 h3 show ?thesis by blast
qed

theorem containers_total_iff_names_witness:
  "contextValue containers_category = ''containersLabel'' \<and>
   docker_getContainerDescriptors
     (offline_backend\<lparr>docker_getContainerDescriptors :=
        Inr (Some [\<lparr>Image = ''nginx'', Names = [], State = ''created'', Status = ''Created''\<rparr>])\<rparr>) =
     Inr (Some [\<lparr>Image = ''nginx'', Names = [], State = ''created'', Status = ''Created''\<rparr>]) \<and>
   snd (getChildren
     (offline_backend\<lparr>docker_getContainerDescriptors :=
        Inr (Some [\<lparr>Image = ''nginx'', Names = [], State = ''created'', Status = ''Created''\<rparr>])\<rparr>)
     (DockerExplorerProvider_new True) (Some containers_category)) = Some (Inl TypeError)"
  using containers_total_iff_names
    [of containers_category
        "offline_backend\<lparr>docker_getContainerDescriptors :=
           Inr (Some [\<lparr>Image = ''nginx'', Names = [], State = ''created'', Status = ''Created''\<rparr>])\<rparr>"
        "[\<lparr>Image = ''nginx'', Names = [], State = ''created'', Status = ''Created''\<rparr>]"
        "DockerExplorerProvider_new True"]
  by (simp add: containers_category_def DockerNode_new_def)

theorem containers_empty_first_name_counterexample:
  "hd (Names \<lparr>Image = ''busybox'', Names = [''''], State = ''created'', Status = ''Created''\<rparr>) = '''' \<and>
   snd (getChildren
     (offline_backend\<lparr>docker_getContainerDescriptors :=
        Inr (Some [\<lparr>Image = ''busybox'', Names = [''''], State = ''created'', Status = ''Created''\<rparr>])\<rparr>)
     (DockerExplorerProvider_new True) (Some containers_category)) =
   Some (Inr (Some
     [(DockerNode_new ''busybox () [Created]'' None_state ''runningContainer'' None (Icon moby_small))
        \<lparr>containerDesc :=
           Some \<lparr>Image = ''busybox'', Names = [''''], State = ''created'', Status = ''Created''\<rparr>\<rparr>]))"
  by (simp add: getChildren_def getDockerNodes_def expand_containers_def await_def
      container_node_def containers_category_def DockerNode_new_def)



subsection \<open>Concrete runs: timer, refresh signals and subscriptions\<close>

theorem setAutoRefresh_debounces_witness:
  "\<not> greater_zero (config_get (Some (Num 0)) (Num 1000)) \<and>
   setAutoRefresh (Some (Num 0)) (DockerExplorerProvider_new True, \<lparr>timers = [], next_timer = 0\<rparr>) =
     (DockerExplorerProvider_new True, \<lparr>timers = [], next_timer = 0\<rparr>) \<and>
   greater_zero (config_get None (Num 1000)) \<and>
   fst ` set (timers \<lparr>timers = [(4, Num 1000)], next_timer = 5\<rparr>) \<subseteq>
     set_option (debounceTimer ((DockerExplorerProvider_new True)\<lparr>debounceTimer := Some 4\<rparr>)) \<and>
   timers (snd (setAutoRefresh None
     ((DockerExplorerProvider_new True)\<lparr>debounceTimer := Some 4\<rparr>,
      \<lparr>timers = [(4, Num 1000)], next_timer = 5\<rparr>))) = [(5, Num 1000)] \<and>
   4 \<in> fst ` set (timers \<lparr>timers = [(4, Num 1000)], next_timer = 5\<rparr>) \<and>
   onDidChangeTreeData (fst (timer_fires 4
     ((DockerExplorerProvider_new True)\<lparr>debounceTimer := Some 4\<rparr>,
      \<lparr>timers = [(4, Num 1000)], next_timer = 5\<rparr>))) = [None, None]"
proof -
  have a: "\<not> greater_zero (config_get (Some (Num 0)) (Num 1000))"
    by (simp add: greater_zero_def config_get_def)
  have b: "greater_zero (config_get None (Num 1000))"
    by (simp add: greater_zero_def config_get_def)
  have c: "fst ` set (timers \<lparr>timers = [(4, Num 1000)], next_timer = 5\<rparr>) \<subseteq>
     set_option (debounceTimer ((DockerExplorerProvider_new True)\<lparr>debounceTimer := Some 4\<rparr>))"
    by simp
  have d: "4 \<in> fst ` set (timers \<lparr>timers = [(4, Num 1000)], next_timer = 5\<rparr>)" by simp
  from a setAutoRefresh_debounces
    [of "Some (Num 0)" "DockerExplorerProvider_new True" "\<lparr>timers = [], next_timer = 0\<rparr>" 0]
  have e: "setAutoRefresh (Some (Num 0)) (DockerExplorerProvider_new True, \<lparr>timers = [], next_timer = 0\<rparr>) =
     (DockerExplorerProvider_new True, \<lparr>timers = [], next_timer = 0\<rparr>)"
    by blast
  from b c d setAutoRefresh_debounces
    [of None "(DockerExplorerProvider_new True)\<lparr>debounceTimer := Some 4\<rparr>"
        "\<lparr>timers = [(4, Num 1000)], next_timer = 5\<rparr>" 4]
  have f: "timers (snd (setAutoRefresh None
       ((DockerExplorerProvider_new True)\<lparr>debounceTimer := Some 4\<rparr>,
        \<lparr>timers = [(4, Num 1000)], next_timer = 5\<rparr>))) = [(5, Num 1000)]"
    and g: "onDidChangeTreeData (fst (timer_fires 4
       ((DockerExplorerProvider_new True)\<lparr>debounceTimer := Some 4\<rparr>,
        \<lparr>timers = [(4, Num 1000)], next_timer = 5\<rparr>))) = [None, None]"
    by (simp_all add: config_get_def DockerExplorerProvider_new_def)
  from a b c d e f g show ?thesis by blast
qed

theorem refresh_before_top_level_fires_undefined_witness:
  "(\<forall>B. GetChildren B None \<notin>
      set [GetChildren offline_backend (Some images_category), SetAutoRefresh None, TimerFires 0]) \<and>
   onDidChangeTreeData
     (refreshImages (fst (run
        [GetChildren offline_backend (Some images_category), SetAutoRefresh None, TimerFires 0]
        (DockerExplorerProvider_new True, \<lparr>timers = [], next_timer = 0\<rparr>)))) =
   [None, None, None]"
proof -
  have h: "\<forall>B. GetChildren B None \<notin>
      set [GetChildren offline_backend (Some images_category), SetAutoRefresh None, TimerFires 0]"
    by simp
  have "onDidChangeTreeData (fst (run
        [GetChildren offline_backend (Some images_category), SetAutoRefresh None, TimerFires 0]
        (DockerExplorerProvider_new True, \<lparr>timers = [], next_timer = 0\<rparr>))) = [None, None]"
    by (simp add: getChildren_def getDockerNodes_def setAutoRefresh_def config_get_def
        greater_zero_def clearTimeout_def setTimeout_def timer_fires_def debounce_callback_def
        refreshImages_def refreshContainers_def fire_def DockerExplorerProvider_new_def)
  with refresh_before_top_level_fires_undefined [OF h, of True "\<lparr>timers = [], next_timer = 0\<rparr>"] h
  show ?thesis by simp
qed

theorem subscriptions_sorted_by_label_witness:
  "getSubscriptions
       (offline_backend\<lparr>azureAccount_sessions := [\<lparr>credentials = ''alice'', environment = ''AzureCloud''\<rparr>],
          subscriptions_list := (\<lambda>c. Inr \<lparr>items =
            [\<lparr>displayName = Some ''Prod'', subscriptionId = Some ''sub-2'', tenantId = None\<rparr>,
             \<lparr>displayName = Some ''Dev'', subscriptionId = Some ''sub-1'', tenantId = None\<rparr>],
            nextLink = None\<rparr>)\<rparr>) =
     Some (Inr
       [subscription_item \<lparr>credentials = ''alice'', environment = ''AzureCloud''\<rparr>
          \<lparr>displayName = Some ''Dev'', subscriptionId = Some ''sub-1'', tenantId = None\<rparr>,
        subscription_item \<lparr>credentials = ''alice'', environment = ''AzureCloud''\<rparr>
          \<lparr>displayName = Some ''Prod'', subscriptionId = Some ''sub-2'', tenantId = None\<rparr>]) \<and>
   sorted_wrt (\<lambda>a b. localeCompare
       (offline_backend\<lparr>azureAccount_sessions := [\<lparr>credentials = ''alice'', environment = ''AzureCloud''\<rparr>],
          subscriptions_list := (\<lambda>c. Inr \<lparr>items =
            [\<lparr>displayName = Some ''Prod'', subscriptionId = Some ''sub-2'', tenantId = None\<rparr>,
             \<lparr>displayName = Some ''Dev'', subscriptionId = Some ''sub-1'', tenantId = None\<rparr>],
            nextLink = None\<rparr>)\<rparr>) (SubscriptionItem.label a) (SubscriptionItem.label b) \<le> 0)
     [subscription_item \<lparr>credentials = ''alice'', environment = ''AzureCloud''\<rparr>
          \<lparr>displayName = Some ''Dev'', subscriptionId = Some ''sub-1'', tenantId = None\<rparr>,
        subscription_item \<lparr>credentials = ''alice'', environment = ''AzureCloud''\<rparr>
          \<lparr>displayName = Some ''Prod'', subscriptionId = Some ''sub-2'', tenantId = None\<rparr>]"
proof -
  let ?B = "offline_backend\<lparr>azureAccount_sessions := [\<lparr>credentials = ''alice'', environment = ''AzureCloud''\<rparr>],
          subscriptions_list := (\<lambda>c. Inr \<lparr>items =
            [\<lparr>displayName = Some ''Prod'', subscriptionId = Some ''sub-2'', tenantId = None\<rparr>,
             \<lparr>displayName = Some ''Dev'', subscriptionId = Some ''sub-1'', tenantId = None\<rparr>],
            nextLink = None\<rparr>)\<rparr>"
  have lc: "localeCompare ?B = (\<lambda>a b. if a < b then - 1 else if b < a then 1 else 0)"
    by (simp add: offline_backend_def)
  have total: "\<forall>a b. 0 < localeCompare ?B a b \<longrightarrow> localeCompare ?B b a \<le> 0"
    unfolding lc by simp
  have trans: "\<forall>a b c. localeCompare ?B a b \<le> 0 \<and> localeCompare ?B b c \<le> 0 \<longrightarrow>
      localeCompare ?B a c \<le> 0"
    unfolding lc by (auto split: if_splits)
  have result: "getSubscriptions ?B = Some (Inr
       [subscription_item \<lparr>credentials = ''alice'', environment = ''AzureCloud''\<rparr>
          \<lparr>displayName = Some ''Dev'', subscriptionId = Some ''sub-1'', tenantId = None\<rparr>,
        subscription_item \<lparr>credentials = ''alice'', environment = ''AzureCloud''\<rparr>
          \<lparr>displayName = Some ''Prod'', subscriptionId = Some ''sub-2'', tenantId = None\<rparr>])"
    by (simp add: getSubscriptions_def await_def listAll_def listAll_loop_last truthy_def
        Array_sort_def subscription_item_def or_empty_def offline_backend_def)
  from subscriptions_sorted_by_label [OF total trans result] result
  show ?thesis by blast
qed


subsection \<open>Azure registries: the token exchange\<close>














subsection \<open>What reaches the caller of \<open>getChildren\<close>\<close>














end
